theory Spec2Isabelle
  imports Main
begin

section \<open>Python objects\<close>

text \<open>
  The module under verification is
  \<^verbatim>\<open>ninja_extra/controllers/controller_route/route_functions.py\<close>. Its signature logic
  compares the \<^emph>\<open>types\<close> of Python objects (\<^verbatim>\<open>type(param.default) == type(params.Query)\<close>),
  so the model keeps classes as first-class values. A class is identified by its qualified
  name and carries its metaclass; \<^verbatim>\<open>type\<close> is its own metaclass.
\<close>

datatype pyclass = Builtin_type | PyClass string pyclass

fun metaclass :: "pyclass \<Rightarrow> pyclass" where
  "metaclass Builtin_type = Builtin_type"
| "metaclass (PyClass n m) = m"

datatype pyval =
    PyNone
  | PyEllipsis
  | PyBool bool
  | PyInt int
  | PyStr string
  | PyClassObj pyclass
  | PyInstance pyclass "pyval list"

text \<open>The builtin \<^verbatim>\<open>type(x)\<close>: the class of an instance, the metaclass of a class.\<close>

fun py_type :: "pyval \<Rightarrow> pyclass" where
  "py_type PyNone = PyClass ''NoneType'' Builtin_type"
| "py_type PyEllipsis = PyClass ''ellipsis'' Builtin_type"
| "py_type (PyBool b) = PyClass ''bool'' Builtin_type"
| "py_type (PyInt i) = PyClass ''int'' Builtin_type"
| "py_type (PyStr s) = PyClass ''str'' Builtin_type"
| "py_type (PyClassObj c) = metaclass c"
| "py_type (PyInstance c args) = c"

datatype exn =
    KeyError string
  | ValueError string
  | TypeError string
  | Raised pyval

subsection \<open>Objects of the standard library and of the framework\<close>

text \<open>
  \<^verbatim>\<open>inspect.Parameter.empty\<close> is the class \<^verbatim>\<open>inspect._empty\<close> (an ordinary class, so its
  type is \<^verbatim>\<open>type\<close>); a parameter without default has this class object as its default.
\<close>

definition inspect_empty :: pyval where
  "inspect_empty = PyClassObj (PyClass ''inspect._empty'' Builtin_type)"

text \<open>
  \<^verbatim>\<open>ninja.params.Query\<close> is a class of the framework (a subclass of \<^verbatim>\<open>Param\<close>, itself a
  subclass of pydantic's \<^verbatim>\<open>FieldInfo\<close>, none of them declaring a metaclass), and
  \<^verbatim>\<open>Query(...)\<close> builds an instance of it whose default is \<^verbatim>\<open>Ellipsis\<close>.
\<close>

definition params_Query :: pyclass where
  "params_Query = PyClass ''ninja.params.Query'' Builtin_type"

definition Query :: "pyval \<Rightarrow> pyval" where
  "Query d = PyInstance params_Query [d]"

text \<open>A query-parameter marker is an instance of the framework's \<^verbatim>\<open>Query\<close> class.\<close>

fun is_query_marker :: "pyval \<Rightarrow> bool" where
  "is_query_marker (PyInstance c args) = (c = params_Query)"
| "is_query_marker v = False"

section \<open>Parameters and signatures (module \<^verbatim>\<open>inspect\<close>)\<close>

datatype param_kind =
  POSITIONAL_ONLY | POSITIONAL_OR_KEYWORD | VAR_POSITIONAL | KEYWORD_ONLY | VAR_KEYWORD

text \<open>The kinds are an \<^verbatim>\<open>IntEnum\<close>; \<^verbatim>\<open>Signature\<close> compares them as integers.\<close>

fun kind_value :: "param_kind \<Rightarrow> nat" where
  "kind_value POSITIONAL_ONLY = 0"
| "kind_value POSITIONAL_OR_KEYWORD = 1"
| "kind_value VAR_POSITIONAL = 2"
| "kind_value KEYWORD_ONLY = 3"
| "kind_value VAR_KEYWORD = 4"

record parameter =
  name :: string
  kind :: param_kind
  default_value :: pyval
  annotation :: pyval

record signature =
  parameters :: "parameter list"
  return_annotation :: pyval

text \<open>
  The loop of \<^verbatim>\<open>Signature.__init__\<close> that validates a parameter list: kinds may not
  decrease, a positional parameter without default may not follow one with a default, and
  no name may occur twice. The arguments are the loop's variables \<^verbatim>\<open>top_kind\<close>,
  \<^verbatim>\<open>seen_default\<close> and the names stored so far; the result is the error raised, if any.
\<close>

fun validate_parameters ::
  "param_kind \<Rightarrow> bool \<Rightarrow> string list \<Rightarrow> parameter list \<Rightarrow> exn option" where
  "validate_parameters top_kind seen_default names [] = None"
| "validate_parameters top_kind seen_default names (p # ps) =
     (if kind_value (kind p) < kind_value top_kind
      then Some (ValueError ''wrong parameter order'')
      else
        let top_kind' = (if kind_value (kind p) > kind_value top_kind then kind p else top_kind);
            positional = (kind p = POSITIONAL_ONLY \<or> kind p = POSITIONAL_OR_KEYWORD)
        in
          if positional \<and> default_value p = inspect_empty \<and> seen_default
          then Some (ValueError ''non-default argument follows default argument'')
          else
            let seen_default' = (seen_default \<or> (positional \<and> default_value p \<noteq> inspect_empty))
            in
              if name p \<in> set names
              then Some (ValueError ''duplicate parameter name'')
              else validate_parameters top_kind' seen_default' (names @ [name p]) ps)"

definition valid_parameters :: "parameter list \<Rightarrow> bool" where
  "valid_parameters ps = (validate_parameters POSITIONAL_ONLY False [] ps = None)"

text \<open>
  \<^verbatim>\<open>sig.replace(parameters=ps)\<close> builds a new \<^verbatim>\<open>Signature\<close> from \<^verbatim>\<open>ps\<close> and the old
  return annotation, validating \<^verbatim>\<open>ps\<close>; it raises \<^verbatim>\<open>ValueError\<close> on an invalid list.
\<close>

definition Signature_replace :: "signature \<Rightarrow> parameter list \<Rightarrow> exn + signature" where
  "Signature_replace sig ps =
     (case validate_parameters POSITIONAL_ONLY False [] ps of
        Some e \<Rightarrow> Inl e
      | None \<Rightarrow> Inr (sig\<lparr>parameters := ps\<rparr>))"

section \<open>Handlers, routes and controllers\<close>

text \<open>
  A handler (\<^verbatim>\<open>api_func\<close>) is a Python function: what the module reads of it is the
  signature \<^verbatim>\<open>inspect.signature\<close> returns and whether it was declared \<^verbatim>\<open>async def\<close>
  (\<^verbatim>\<open>ninja.signature.is_async\<close> is \<^verbatim>\<open>asyncio.iscoroutinefunction\<close>).
\<close>

record py_function =
  func_name :: string
  inspect_signature :: signature
  iscoroutinefunction :: bool

definition is_async :: "py_function \<Rightarrow> bool" where
  "is_async f = iscoroutinefunction f"

text \<open>
  What a call returns: a plain value, or a coroutine object, which holds a body that has
  not run yet. \<^verbatim>\<open>await\<close> runs the body of a coroutine and raises \<^verbatim>\<open>TypeError\<close> on
  anything else.
\<close>

datatype pyres = Value pyval | Coroutine "exn + pyres"

fun await :: "pyres \<Rightarrow> exn + pyres" where
  "await (Coroutine body) = body"
| "await (Value v) = Inl (TypeError ''object can not be used in await expression'')"

text \<open>
  The controller instance and the Route definition are external collaborators; each of
  their methods is a parameter of the model and may raise. A method declared \<^verbatim>\<open>async def\<close>
  is one whose call returns a \<^const>\<open>Coroutine\<close>.
\<close>

record controller =
  check_permissions :: "exn + pyres"
  run_view_func :: "py_function \<Rightarrow> exn + pyres"
  async_run_view_func :: "py_function \<Rightarrow> exn + pyres"
  run_object_view_func :: "py_function \<Rightarrow> exn + pyres"
  async_run_object_view_func :: "py_function \<Rightarrow> exn + pyres"
  run_list_view_func :: "py_function \<Rightarrow> exn + pyres"
  async_run_list_view_func :: "py_function \<Rightarrow> exn + pyres"

type_synonym kwargs = "string \<rightharpoonup> pyval"

record route =
  create_view_func_instance :: "pyval \<Rightarrow> pyval list \<Rightarrow> kwargs \<Rightarrow> exn + controller"
  resolve_paginated_request_schema :: "exn + pyval"

section \<open>The route functions\<close>

datatype route_function_class =
  RouteFunction | RetrieveObjectRouteFunction | PaginatedRouteFunction

text \<open>
  An instance of one of the three classes. \<^verbatim>\<open>registered_filter\<close> is an attribute of
  \<^verbatim>\<open>PaginatedRouteFunction\<close> only (class default \<^verbatim>\<open>False\<close>); the other classes never read it.
\<close>

record route_function =
  cls :: route_function_class
  route_definition :: route
  api_func :: py_function
  registered_filter :: bool

definition init :: "route_function_class \<Rightarrow> route \<Rightarrow> py_function \<Rightarrow> route_function" where
  "init c rd f = \<lparr>cls = c, route_definition = rd, api_func = f, registered_filter = False\<rparr>"

definition skip_parameters :: "string list" where
  "skip_parameters = [''context'', ''self'', ''request'']"

definition get_required_api_func_signature :: "py_function \<Rightarrow> signature \<times> parameter list" where
  "get_required_api_func_signature f =
     (let sig_inspect = inspect_signature f;
          sig_parameter = filter (\<lambda>parameter. name parameter \<notin> set skip_parameters)
                            (parameters sig_inspect)
      in (sig_inspect, sig_parameter))"

text \<open>
  Signature resolution returns the signature stored in the wrapper's \<^verbatim>\<open>__signature__\<close>
  and the instance as the resolution leaves it. When it raises, \<^verbatim>\<open>from_route\<close> raises and
  hands out neither the wrapper nor the instance, so the error case carries no instance.
\<close>

definition RouteFunction_resolve_api_func_signature ::
  "route_function \<Rightarrow> py_function \<Rightarrow> exn + (signature \<times> route_function)" where
  "RouteFunction_resolve_api_func_signature self f =
     (case get_required_api_func_signature f of (sig_inspect, sig_parameter) \<Rightarrow>
        (case Signature_replace sig_inspect sig_parameter of
           Inl e \<Rightarrow> Inl e
         | Inr sig_replaced \<Rightarrow> Inr (sig_replaced, self)))"

definition has_query_param :: "parameter list \<Rightarrow> bool" where
  "has_query_param required_func_signature =
     list_ex (\<lambda>param. py_type (default_value param) = py_type (PyClassObj params_Query))
       required_func_signature"

text \<open>
  \<^verbatim>\<open>inspect.Parameter(name='filters', kind=KEYWORD_ONLY, default=Query(...), annotation=...)\<close>;
  the constructor's checks (a valid kind, a valid name, no default on a variadic kind)
  pass for these arguments.
\<close>

definition query_params :: "pyval \<Rightarrow> parameter" where
  "query_params schema =
     \<lparr>name = ''filters'', kind = KEYWORD_ONLY, default_value = Query PyEllipsis,
      annotation = schema\<rparr>"

definition PaginatedRouteFunction_resolve_api_func_signature ::
  "route_function \<Rightarrow> py_function \<Rightarrow> exn + (signature \<times> route_function)" where
  "PaginatedRouteFunction_resolve_api_func_signature self f =
     (case get_required_api_func_signature f of (sig_inspect, required_func_signature) \<Rightarrow>
        if \<not> has_query_param required_func_signature
        then
          (case resolve_paginated_request_schema (route_definition self) of
             Inl e \<Rightarrow> Inl e
           | Inr schema \<Rightarrow>
               (case Signature_replace sig_inspect
                       (required_func_signature @ [query_params schema]) of
                  Inl e \<Rightarrow> Inl e
                | Inr sig_replaced \<Rightarrow> Inr (sig_replaced, self\<lparr>registered_filter := True\<rparr>)))
        else
          (case Signature_replace sig_inspect required_func_signature of
             Inl e \<Rightarrow> Inl e
           | Inr sig_replaced \<Rightarrow> Inr (sig_replaced, self)))"

text \<open>Method resolution: the override of the instance's class.\<close>

definition resolve_api_func_signature ::
  "route_function \<Rightarrow> py_function \<Rightarrow> exn + (signature \<times> route_function)" where
  "resolve_api_func_signature self f =
     (case cls self of
        PaginatedRouteFunction \<Rightarrow> PaginatedRouteFunction_resolve_api_func_signature self f
      | _ \<Rightarrow> RouteFunction_resolve_api_func_signature self f)"

text \<open>
  The wrapper \<^verbatim>\<open>context_func\<close>: whether it is declared \<^verbatim>\<open>async def\<close>, the handler
  \<^verbatim>\<open>functools.wraps\<close> records in \<^verbatim>\<open>__wrapped__\<close>, the attached \<^verbatim>\<open>__signature__\<close>, and
  the instance \<^verbatim>\<open>self\<close> its body refers to. The body reads \<^verbatim>\<open>self\<close> when it is called,
  that is after signature resolution has written \<^verbatim>\<open>registered_filter\<close>.
\<close>

record context_func =
  async_def :: bool
  wrapped :: py_function
  exposed_signature :: signature
  closure_self :: route_function

definition convert_api_func_to_context_view ::
  "route_function \<Rightarrow> py_function \<Rightarrow> exn + (context_func \<times> route_function)" where
  "convert_api_func_to_context_view self f =
     (case resolve_api_func_signature self f of
        Inl e \<Rightarrow> Inl e
      | Inr (sig_replaced, self') \<Rightarrow>
          Inr (\<lparr>async_def = False, wrapped = f, exposed_signature = sig_replaced,
                closure_self = self'\<rparr>, self'))"

definition convert_async_api_func_to_context_view ::
  "route_function \<Rightarrow> py_function \<Rightarrow> exn + (context_func \<times> route_function)" where
  "convert_async_api_func_to_context_view self f =
     (case resolve_api_func_signature self f of
        Inl e \<Rightarrow> Inl e
      | Inr (sig_replaced, self') \<Rightarrow>
          Inr (\<lparr>async_def = True, wrapped = f, exposed_signature = sig_replaced,
                closure_self = self'\<rparr>, self'))"

definition from_route ::
  "route_function_class \<Rightarrow> py_function \<Rightarrow> route \<Rightarrow> exn + (context_func \<times> route_function)" where
  "from_route c f rd =
     (let route_function = init c rd f
      in if is_async f
         then convert_async_api_func_to_context_view route_function f
         else convert_api_func_to_context_view route_function f)"

section \<open>Invoking the wrapper\<close>

text \<open>
  The calls the wrapper makes on its collaborators are recorded in order, the way a test
  double would record them: every call, and every \<^verbatim>\<open>await\<close> of what a call returned.
\<close>

datatype strategy =
    Run_view_func | Async_run_view_func
  | Run_object_view_func | Async_run_object_view_func
  | Run_list_view_func | Async_run_list_view_func

datatype callee =
    Create_view_func_instance pyval "pyval list" kwargs
  | Check_permissions
  | Strategy strategy py_function

datatype event = Called callee | Awaited callee

definition RouteFunction_filter_registered_kwargs :: "route_function \<Rightarrow> kwargs \<Rightarrow> exn + kwargs" where
  "RouteFunction_filter_registered_kwargs self kw = Inr kw"

text \<open>\<^verbatim>\<open>dict.pop(key)\<close> without default raises \<^verbatim>\<open>KeyError\<close> when the key is missing.\<close>

definition PaginatedRouteFunction_filter_registered_kwargs ::
  "route_function \<Rightarrow> kwargs \<Rightarrow> exn + kwargs" where
  "PaginatedRouteFunction_filter_registered_kwargs self kw =
     (if registered_filter self
      then (case kw ''filters'' of
              None \<Rightarrow> Inl (KeyError ''filters'')
            | Some v \<Rightarrow> Inr (kw(''filters'' := None)))
      else Inr kw)"

definition filter_registered_kwargs :: "route_function \<Rightarrow> kwargs \<Rightarrow> exn + kwargs" where
  "filter_registered_kwargs self kw =
     (case cls self of
        PaginatedRouteFunction \<Rightarrow> PaginatedRouteFunction_filter_registered_kwargs self kw
      | _ \<Rightarrow> RouteFunction_filter_registered_kwargs self kw)"

text \<open>
  \<^verbatim>\<open>def get_owner_instance(self, request, *args, **kwargs)\<close> is called as
  \<^verbatim>\<open>self.get_owner_instance(request, *args, **kw)\<close>: a key \<^verbatim>\<open>self\<close> or \<^verbatim>\<open>request\<close> in \<^verbatim>\<open>kw\<close>
  clashes with the method's own parameters and Python raises \<^verbatim>\<open>TypeError\<close> before the
  body runs. Otherwise the body calls the Route definition's factory.
\<close>

definition get_owner_instance ::
  "route_function \<Rightarrow> pyval \<Rightarrow> pyval list \<Rightarrow> kwargs \<Rightarrow> event list \<times> (exn + controller)" where
  "get_owner_instance self request args kw =
     (if ''self'' \<in> dom kw \<or> ''request'' \<in> dom kw
      then ([], Inl (TypeError ''get_owner_instance() got multiple values for argument''))
      else ([Called (Create_view_func_instance request args kw)],
            create_view_func_instance (route_definition self) request args kw))"

text \<open>The three overrides of \<^verbatim>\<open>run_view_func\<close>, each passing \<^verbatim>\<open>self.api_func\<close>.\<close>

definition RouteFunction_run_view_func ::
  "route_function \<Rightarrow> controller \<Rightarrow> event list \<times> (exn + pyres)" where
  "RouteFunction_run_view_func self controller_instance =
     ([Called (Strategy Run_view_func (api_func self))],
      run_view_func controller_instance (api_func self))"

definition RetrieveObjectRouteFunction_run_view_func ::
  "route_function \<Rightarrow> controller \<Rightarrow> event list \<times> (exn + pyres)" where
  "RetrieveObjectRouteFunction_run_view_func self controller_instance =
     ([Called (Strategy Run_object_view_func (api_func self))],
      run_object_view_func controller_instance (api_func self))"

definition PaginatedRouteFunction_run_view_func ::
  "route_function \<Rightarrow> controller \<Rightarrow> event list \<times> (exn + pyres)" where
  "PaginatedRouteFunction_run_view_func self controller_instance =
     ([Called (Strategy Run_list_view_func (api_func self))],
      run_list_view_func controller_instance (api_func self))"

definition self_run_view_func ::
  "route_function \<Rightarrow> controller \<Rightarrow> event list \<times> (exn + pyres)" where
  "self_run_view_func self controller_instance =
     (case cls self of
        RouteFunction \<Rightarrow> RouteFunction_run_view_func self controller_instance
      | RetrieveObjectRouteFunction \<Rightarrow>
          RetrieveObjectRouteFunction_run_view_func self controller_instance
      | PaginatedRouteFunction \<Rightarrow> PaginatedRouteFunction_run_view_func self controller_instance)"

text \<open>
  The three overrides of \<^verbatim>\<open>async_run_view_func\<close>, as the body of the coroutine runs:
  the controller's method is called with \<^verbatim>\<open>self.api_func\<close> and what it returns is awaited.
\<close>

definition await_call :: "strategy \<Rightarrow> py_function \<Rightarrow> exn + pyres \<Rightarrow> event list \<times> (exn + pyres)" where
  "await_call s f outcome =
     (case outcome of
        Inl e \<Rightarrow> ([Called (Strategy s f)], Inl e)
      | Inr r \<Rightarrow> ([Called (Strategy s f), Awaited (Strategy s f)], await r))"

definition RouteFunction_async_run_view_func ::
  "route_function \<Rightarrow> controller \<Rightarrow> event list \<times> (exn + pyres)" where
  "RouteFunction_async_run_view_func self controller_instance =
     await_call Async_run_view_func (api_func self)
       (async_run_view_func controller_instance (api_func self))"

definition RetrieveObjectRouteFunction_async_run_view_func ::
  "route_function \<Rightarrow> controller \<Rightarrow> event list \<times> (exn + pyres)" where
  "RetrieveObjectRouteFunction_async_run_view_func self controller_instance =
     await_call Async_run_object_view_func (api_func self)
       (async_run_object_view_func controller_instance (api_func self))"

definition PaginatedRouteFunction_async_run_view_func ::
  "route_function \<Rightarrow> controller \<Rightarrow> event list \<times> (exn + pyres)" where
  "PaginatedRouteFunction_async_run_view_func self controller_instance =
     await_call Async_run_list_view_func (api_func self)
       (async_run_list_view_func controller_instance (api_func self))"

definition self_async_run_view_func ::
  "route_function \<Rightarrow> controller \<Rightarrow> event list \<times> (exn + pyres)" where
  "self_async_run_view_func self controller_instance =
     (case cls self of
        RouteFunction \<Rightarrow> RouteFunction_async_run_view_func self controller_instance
      | RetrieveObjectRouteFunction \<Rightarrow>
          RetrieveObjectRouteFunction_async_run_view_func self controller_instance
      | PaginatedRouteFunction \<Rightarrow>
          PaginatedRouteFunction_async_run_view_func self controller_instance)"

text \<open>
  The body of \<^verbatim>\<open>context_func\<close>, with the execution strategy as a parameter: the
  synchronous wrapper passes \<^verbatim>\<open>self.run_view_func\<close>, the asynchronous one awaits
  \<^verbatim>\<open>self.async_run_view_func\<close>. The keyword arguments are filtered first, then the
  controller instance is created, then \<^verbatim>\<open>check_permissions()\<close> is called and what it
  returns is dropped, then the strategy runs. The map \<open>kw\<close> is the value of \<^verbatim>\<open>kwargs\<close> in
  the body: the keyword arguments of the call that did not bind to \<^verbatim>\<open>request\<close>.
\<close>

definition context_func_body ::
  "(route_function \<Rightarrow> controller \<Rightarrow> event list \<times> (exn + pyres)) \<Rightarrow>
   route_function \<Rightarrow> pyval \<Rightarrow> pyval list \<Rightarrow> kwargs \<Rightarrow> event list \<times> (exn + pyres)" where
  "context_func_body run self request args kw =
     (case filter_registered_kwargs self kw of
        Inl e \<Rightarrow> ([], Inl e)
      | Inr kw' \<Rightarrow>
          (case get_owner_instance self request args kw' of
             (t1, Inl e) \<Rightarrow> (t1, Inl e)
           | (t1, Inr controller_instance) \<Rightarrow>
               (case check_permissions controller_instance of
                  Inl e \<Rightarrow> (t1 @ [Called Check_permissions], Inl e)
                | Inr dropped \<Rightarrow>
                    (case run self controller_instance of
                       (t2, outcome) \<Rightarrow> (t1 @ [Called Check_permissions] @ t2, outcome)))))"

definition sync_context_func ::
  "route_function \<Rightarrow> pyval \<Rightarrow> pyval list \<Rightarrow> kwargs \<Rightarrow> event list \<times> (exn + pyres)" where
  "sync_context_func = context_func_body self_run_view_func"

definition async_context_func ::
  "route_function \<Rightarrow> pyval \<Rightarrow> pyval list \<Rightarrow> kwargs \<Rightarrow> event list \<times> (exn + pyres)" where
  "async_context_func = context_func_body self_async_run_view_func"

text \<open>
  Calling the wrapped callable (and, for an asynchronous one, running the coroutine it
  returns to its end).
\<close>

definition call_context_func ::
  "context_func \<Rightarrow> pyval \<Rightarrow> pyval list \<Rightarrow> kwargs \<Rightarrow> event list \<times> (exn + pyres)" where
  "call_context_func w request args kw =
     (if async_def w then async_context_func (closure_self w) request args kw
      else sync_context_func (closure_self w) request args kw)"

section \<open>Notions the properties are stated with\<close>

text \<open>The parameters of a list whose default value is a query-parameter marker.\<close>

definition query_marker_params :: "parameter list \<Rightarrow> parameter list" where
  "query_marker_params ps = filter (\<lambda>p. is_query_marker (default_value p)) ps"

text \<open>
  What \<^verbatim>\<open>from_route\<close> exposes: the parameter list of the signature attached to the wrapper,
  and the \<^verbatim>\<open>registered_filter\<close> flag of the instance it returns.
\<close>

definition exposed ::
  "exn + (context_func \<times> route_function) \<Rightarrow> exn + (parameter list \<times> bool)" where
  "exposed r =
     (case r of
        Inl e \<Rightarrow> Inl e
      | Inr (w, rf) \<Rightarrow> Inr (parameters (exposed_signature w), registered_filter rf))"

section \<open>Example handlers, controllers and routes\<close>

definition positional :: "string \<Rightarrow> pyval \<Rightarrow> pyval \<Rightarrow> parameter" where
  "positional n d a =
     \<lparr>name = n, kind = POSITIONAL_OR_KEYWORD, default_value = d, annotation = a\<rparr>"

definition def_function :: "string \<Rightarrow> parameter list \<Rightarrow> py_function" where
  "def_function n ps =
     \<lparr>func_name = n,
      inspect_signature = \<lparr>parameters = ps, return_annotation = inspect_empty\<rparr>,
      iscoroutinefunction = False\<rparr>"

definition async_def_function :: "string \<Rightarrow> parameter list \<Rightarrow> py_function" where
  "async_def_function n ps = (def_function n ps)\<lparr>iscoroutinefunction := True\<rparr>"

definition int_class :: pyval where
  "int_class = PyClassObj (PyClass ''int'' Builtin_type)"

text \<open>\<^verbatim>\<open>def list_items(self, context)\<close>\<close>

definition list_items :: py_function where
  "list_items = def_function ''list_items''
     [positional ''self'' inspect_empty inspect_empty,
      positional ''context'' inspect_empty inspect_empty]"

text \<open>\<^verbatim>\<open>def list_filtered(self, context, q: ItemFilter = Query(...))\<close>\<close>

definition list_filtered :: py_function where
  "list_filtered = def_function ''list_filtered''
     [positional ''self'' inspect_empty inspect_empty,
      positional ''context'' inspect_empty inspect_empty,
      positional ''q'' (Query PyEllipsis) (PyClassObj (PyClass ''ItemFilter'' Builtin_type))]"

text \<open>\<^verbatim>\<open>def list_by_org(self, context, org_id: int)\<close>, for a path such as \<^verbatim>\<open>/orgs/{org_id}/items\<close>\<close>

definition list_by_org :: py_function where
  "list_by_org = def_function ''list_by_org''
     [positional ''self'' inspect_empty inspect_empty,
      positional ''context'' inspect_empty inspect_empty,
      positional ''org_id'' inspect_empty int_class]"

text \<open>\<^verbatim>\<open>def update_item(self, request, item_id: int, *, notify=False)\<close>\<close>

definition update_item :: py_function where
  "update_item = def_function ''update_item''
     [positional ''self'' inspect_empty inspect_empty,
      positional ''request'' inspect_empty inspect_empty,
      positional ''item_id'' inspect_empty int_class,
      \<lparr>name = ''notify'', kind = KEYWORD_ONLY, default_value = PyBool False,
       annotation = inspect_empty\<rparr>]"

text \<open>\<^verbatim>\<open>async def fetch_item(self, context, item_id: int)\<close>\<close>

definition fetch_item :: py_function where
  "fetch_item = async_def_function ''fetch_item''
     [positional ''self'' inspect_empty inspect_empty,
      positional ''context'' inspect_empty inspect_empty,
      positional ''item_id'' inspect_empty int_class]"

definition PermissionDenied :: exn where
  "PermissionDenied = Raised (PyInstance (PyClass ''PermissionDenied'' Builtin_type) [])"

text \<open>
  A controller whose strategies answer with their own name, and whose permission check
  is given: three checks follow, one that grants, one that raises, and one declared
  \<^verbatim>\<open>async def\<close> whose body would raise if it ever ran.
\<close>

definition controller_with :: "exn + pyres \<Rightarrow> controller" where
  "controller_with check =
     \<lparr>check_permissions = check,
      run_view_func = (\<lambda>f. Inr (Value (PyStr ''run_view_func''))),
      async_run_view_func =
        (\<lambda>f. Inr (Coroutine (Inr (Value (PyStr ''async_run_view_func''))))),
      run_object_view_func = (\<lambda>f. Inr (Value (PyStr ''run_object_view_func''))),
      async_run_object_view_func =
        (\<lambda>f. Inr (Coroutine (Inr (Value (PyStr ''async_run_object_view_func''))))),
      run_list_view_func = (\<lambda>f. Inr (Value (PyStr ''run_list_view_func''))),
      async_run_list_view_func =
        (\<lambda>f. Inr (Coroutine (Inr (Value (PyStr ''async_run_list_view_func'')))))\<rparr>"

definition granting :: controller where
  "granting = controller_with (Inr (Value PyNone))"

definition denying :: controller where
  "denying = controller_with (Inl PermissionDenied)"

definition async_denying :: controller where
  "async_denying = controller_with (Inr (Coroutine (Inl PermissionDenied)))"

definition schema_class :: pyval where
  "schema_class = PyClassObj (PyClass ''PaginatedRequestSchema'' Builtin_type)"

definition route_of :: "controller \<Rightarrow> route" where
  "route_of c =
     \<lparr>create_view_func_instance = (\<lambda>request args kw. Inr c),
      resolve_paginated_request_schema = Inr schema_class\<rparr>"

definition the_request :: pyval where
  "the_request = PyInstance (PyClass ''HttpRequest'' Builtin_type) []"

text \<open>The strategy calls of a trace, in order, each with the handler it was passed.\<close>

fun strategies_called :: "event list \<Rightarrow> (strategy \<times> py_function) list" where
  "strategies_called [] = []"
| "strategies_called (Called (Strategy s f) # evs) = (s, f) # strategies_called evs"
| "strategies_called (ev # evs) = strategies_called evs"

text \<open>
  An instance of class \<open>k\<close> for handler \<open>f\<close> on the route of controller \<open>c\<close>, with the
  flag as signature resolution left it, and the wrapper around it exposing parameters \<open>ps\<close>.
\<close>

definition instance_of ::
  "route_function_class \<Rightarrow> controller \<Rightarrow> py_function \<Rightarrow> bool \<Rightarrow> route_function" where
  "instance_of k c f flag = (init k (route_of c) f)\<lparr>registered_filter := flag\<rparr>"

definition view_of :: "route_function \<Rightarrow> parameter list \<Rightarrow> context_func" where
  "view_of self ps =
     \<lparr>async_def = is_async (api_func self), wrapped = api_func self,
      exposed_signature = (inspect_signature (api_func self))\<lparr>parameters := ps\<rparr>,
      closure_self = self\<rparr>"

section \<open>Signature validation\<close>

text \<open>
  Dropping parameters from a list that \<^verbatim>\<open>Signature\<close> accepts gives a list it accepts:
  the loop may start from a lower kind, from fewer names and without a default seen.
\<close>

lemma validate_parameters_filter:
  "validate_parameters top_kind seen names ps = None \<Longrightarrow>
   kind_value top_kind' \<le> kind_value top_kind \<Longrightarrow> (seen' \<longrightarrow> seen) \<Longrightarrow>
   set names' \<subseteq> set names \<Longrightarrow>
   validate_parameters top_kind' seen' names' (filter P ps) = None"
proof (induction ps arbitrary: top_kind seen names top_kind' seen' names')
  case Nil
  then show ?case by simp
next
  case (Cons p ps)
  let ?pos = "kind p = POSITIONAL_ONLY \<or> kind p = POSITIONAL_OR_KEYWORD"
  from Cons.prems(1) have ok: "validate_parameters
      (if kind_value (kind p) > kind_value top_kind then kind p else top_kind)
      (seen \<or> (?pos \<and> default_value p \<noteq> inspect_empty))
      (names @ [name p]) ps = None"
    and k: "\<not> kind_value (kind p) < kind_value top_kind"
    and d: "\<not> (?pos \<and> default_value p = inspect_empty \<and> seen)"
    and n: "name p \<notin> set names"
    by (simp_all add: Let_def split: if_splits)
  show ?case
  proof (cases "P p")
    case False
    have "validate_parameters top_kind' seen' names' (filter P ps) = None"
      by (rule Cons.IH[OF ok]) (use Cons.prems in \<open>auto split: if_splits\<close>)
    with False show ?thesis by simp
  next
    case True
    have "validate_parameters
        (if kind_value (kind p) > kind_value top_kind' then kind p else top_kind')
        (seen' \<or> (?pos \<and> default_value p \<noteq> inspect_empty))
        (names' @ [name p]) (filter P ps) = None"
      by (rule Cons.IH[OF ok]) (use Cons.prems k in \<open>auto split: if_splits\<close>)
    with True k d n Cons.prems(2-4) show ?thesis
      by (auto simp add: Let_def)
  qed
qed

lemma valid_parameters_filter: "valid_parameters ps \<Longrightarrow> valid_parameters (filter P ps)"
  unfolding valid_parameters_def
  by (rule validate_parameters_filter
        [where top_kind = POSITIONAL_ONLY and seen = False and names = "[]"]) auto

lemma Signature_replace_valid:
  "valid_parameters ps \<Longrightarrow> Signature_replace sig ps = Inr (sig\<lparr>parameters := ps\<rparr>)"
  by (simp add: Signature_replace_def valid_parameters_def)

lemma Signature_replace_Inr:
  "Signature_replace sig ps = Inr s \<Longrightarrow> s = sig\<lparr>parameters := ps\<rparr>"
  by (auto simp add: Signature_replace_def split: option.splits)

section \<open>Signature resolution\<close>

lemma get_required_eq:
  "get_required_api_func_signature f =
     (inspect_signature f,
      filter (\<lambda>parameter. name parameter \<notin> set skip_parameters)
        (parameters (inspect_signature f)))"
  by (simp add: get_required_api_func_signature_def Let_def)

lemma required_not_skipped:
  "p \<in> set (snd (get_required_api_func_signature f)) \<Longrightarrow> name p \<notin> set skip_parameters"
  by (simp add: get_required_eq)

lemma RouteFunction_resolve_Inr:
  assumes "RouteFunction_resolve_api_func_signature self f = Inr (s, self')"
  shows "self' = self"
    and "s = (inspect_signature f)\<lparr>parameters := snd (get_required_api_func_signature f)\<rparr>"
  using assms
  by (auto simp add: RouteFunction_resolve_api_func_signature_def
      get_required_eq dest: Signature_replace_Inr split: sum.splits)

lemma PaginatedRouteFunction_resolve_Inr:
  assumes "PaginatedRouteFunction_resolve_api_func_signature self f = Inr (s, self')"
  shows "(self' = self \<and>
          s = (inspect_signature f)\<lparr>parameters := snd (get_required_api_func_signature f)\<rparr>) \<or>
         (\<exists>schema. self' = self\<lparr>registered_filter := True\<rparr> \<and>
            s = (inspect_signature f)
                  \<lparr>parameters := snd (get_required_api_func_signature f) @ [query_params schema]\<rparr>)"
  using assms
  by (auto simp add: PaginatedRouteFunction_resolve_api_func_signature_def
      get_required_eq dest: Signature_replace_Inr
      split: sum.splits if_splits)

lemma from_route_Inr:
  assumes "from_route c f rd = Inr (w, rf)"
  shows "resolve_api_func_signature (init c rd f) f = Inr (exposed_signature w, rf)"
    and "async_def w = is_async f" and "wrapped w = f" and "closure_self w = rf"
  using assms
  by (auto simp add: from_route_def Let_def convert_api_func_to_context_view_def
      convert_async_api_func_to_context_view_def split: if_splits sum.splits)

lemma resolve_keeps_instance:
  assumes "resolve_api_func_signature self f = Inr (s, self')"
  shows "cls self' = cls self \<and> api_func self' = api_func self \<and>
         route_definition self' = route_definition self"
proof (cases "cls self = PaginatedRouteFunction")
  case True
  with assms have "PaginatedRouteFunction_resolve_api_func_signature self f = Inr (s, self')"
    by (simp add: resolve_api_func_signature_def)
  from PaginatedRouteFunction_resolve_Inr[OF this] show ?thesis by auto
next
  case False
  with assms have "RouteFunction_resolve_api_func_signature self f = Inr (s, self')"
    by (cases "cls self") (simp_all add: resolve_api_func_signature_def)
  from RouteFunction_resolve_Inr(1)[OF this] show ?thesis by simp
qed

text \<open>
  The parameter list signature resolution attaches: the required list, followed for a
  paginated route by at most the synthetic \<^verbatim>\<open>filters\<close> parameter.
\<close>

lemma resolve_parameters:
  assumes "resolve_api_func_signature self f = Inr (s, self')"
  shows "return_annotation s = return_annotation (inspect_signature f)"
    and "cls self \<noteq> PaginatedRouteFunction \<Longrightarrow>
           parameters s = snd (get_required_api_func_signature f) \<and> self' = self"
    and "cls self = PaginatedRouteFunction \<Longrightarrow>
           (parameters s = snd (get_required_api_func_signature f) \<and> self' = self) \<or>
           (\<exists>schema. parameters s = snd (get_required_api_func_signature f) @ [query_params schema]
              \<and> self' = self\<lparr>registered_filter := True\<rparr>)"
proof -
  show "cls self \<noteq> PaginatedRouteFunction \<Longrightarrow>
           parameters s = snd (get_required_api_func_signature f) \<and> self' = self"
  proof -
    assume "cls self \<noteq> PaginatedRouteFunction"
    with assms have "RouteFunction_resolve_api_func_signature self f = Inr (s, self')"
      by (cases "cls self") (simp_all add: resolve_api_func_signature_def)
    from RouteFunction_resolve_Inr[OF this] show ?thesis by simp
  qed
  show "cls self = PaginatedRouteFunction \<Longrightarrow>
           (parameters s = snd (get_required_api_func_signature f) \<and> self' = self) \<or>
           (\<exists>schema. parameters s = snd (get_required_api_func_signature f) @ [query_params schema]
              \<and> self' = self\<lparr>registered_filter := True\<rparr>)"
  proof -
    assume "cls self = PaginatedRouteFunction"
    with assms have "PaginatedRouteFunction_resolve_api_func_signature self f = Inr (s, self')"
      by (simp add: resolve_api_func_signature_def)
    from PaginatedRouteFunction_resolve_Inr[OF this] show ?thesis by auto
  qed
  show "return_annotation s = return_annotation (inspect_signature f)"
  proof (cases "cls self = PaginatedRouteFunction")
    case True
    with assms have "PaginatedRouteFunction_resolve_api_func_signature self f = Inr (s, self')"
      by (simp add: resolve_api_func_signature_def)
    from PaginatedRouteFunction_resolve_Inr[OF this] show ?thesis by auto
  next
    case False
    with assms have "RouteFunction_resolve_api_func_signature self f = Inr (s, self')"
      by (cases "cls self") (simp_all add: resolve_api_func_signature_def)
    from RouteFunction_resolve_Inr[OF this] show ?thesis by simp
  qed
qed

text \<open>When \<^verbatim>\<open>from_route\<close> returns: the only raises are those of signature resolution.\<close>

lemma from_route_returns:
  assumes "valid_parameters (parameters (inspect_signature f))"
    and "c = PaginatedRouteFunction \<Longrightarrow>
           has_query_param (snd (get_required_api_func_signature f)) \<or>
           (\<exists>schema. resolve_paginated_request_schema rd = Inr schema \<and>
              valid_parameters (snd (get_required_api_func_signature f) @ [query_params schema]))"
  shows "\<exists>w rf. from_route c f rd = Inr (w, rf)"
proof -
  let ?required = "filter (\<lambda>parameter. name parameter \<notin> set skip_parameters)
                     (parameters (inspect_signature f))"
  have req: "Signature_replace (inspect_signature f) ?required =
               Inr ((inspect_signature f)\<lparr>parameters := ?required\<rparr>)"
    using assms(1) by (simp add: Signature_replace_valid valid_parameters_filter)
  have "\<exists>s rf. resolve_api_func_signature (init c rd f) f = Inr (s, rf)"
  proof (cases "c = PaginatedRouteFunction")
    case False
    then show ?thesis
      using req
      by (cases c) (simp_all add: resolve_api_func_signature_def init_def
          RouteFunction_resolve_api_func_signature_def get_required_eq)
  next
    case True
    show ?thesis
    proof (cases "has_query_param ?required")
      case True
      with \<open>c = PaginatedRouteFunction\<close> show ?thesis
        using req
        by (simp add: resolve_api_func_signature_def init_def
            PaginatedRouteFunction_resolve_api_func_signature_def get_required_eq)
    next
      case False
      with assms(2) \<open>c = PaginatedRouteFunction\<close> obtain schema where
        s: "resolve_paginated_request_schema rd = Inr schema"
        and v: "valid_parameters (?required @ [query_params schema])"
        by (auto simp add: get_required_eq)
      from False s \<open>c = PaginatedRouteFunction\<close> show ?thesis
        using Signature_replace_valid[OF v]
        by (simp add: resolve_api_func_signature_def init_def
            PaginatedRouteFunction_resolve_api_func_signature_def get_required_eq)
    qed
  qed
  then show ?thesis
    by (auto simp add: from_route_def Let_def convert_api_func_to_context_view_def
        convert_async_api_func_to_context_view_def)
qed

section \<open>The body of the wrapper, case by case\<close>

lemma context_func_body_filter_raises:
  "filter_registered_kwargs self kw = Inl e \<Longrightarrow>
   context_func_body run self request args kw = ([], Inl e)"
  by (simp add: context_func_body_def)

lemma get_owner_instance_Inr:
  assumes "snd (get_owner_instance self request args kw) = Inr ci"
  shows "get_owner_instance self request args kw =
           ([Called (Create_view_func_instance request args kw)], Inr ci)"
    and "create_view_func_instance (route_definition self) request args kw = Inr ci"
    and "''self'' \<notin> dom kw" and "''request'' \<notin> dom kw"
  using assms by (auto simp add: get_owner_instance_def split: if_splits)

lemma get_owner_instance_events:
  "ev \<in> set (fst (get_owner_instance self request args kw)) \<Longrightarrow>
   ev = Called (Create_view_func_instance request args kw)"
  by (simp add: get_owner_instance_def split: if_splits)


lemma context_func_body_create_raises:
  "filter_registered_kwargs self kw = Inr kw' \<Longrightarrow>
   snd (get_owner_instance self request args kw') = Inl e \<Longrightarrow>
   context_func_body run self request args kw =
     (fst (get_owner_instance self request args kw'), Inl e)"
  by (cases "get_owner_instance self request args kw'") (simp add: context_func_body_def)

lemma context_func_body_denied:
  "filter_registered_kwargs self kw = Inr kw' \<Longrightarrow>
   snd (get_owner_instance self request args kw') = Inr ci \<Longrightarrow>
   check_permissions ci = Inl e \<Longrightarrow>
   context_func_body run self request args kw =
     ([Called (Create_view_func_instance request args kw'), Called Check_permissions], Inl e)"
  by (simp add: context_func_body_def get_owner_instance_Inr(1))

lemma context_func_body_runs:
  "filter_registered_kwargs self kw = Inr kw' \<Longrightarrow>
   snd (get_owner_instance self request args kw') = Inr ci \<Longrightarrow>
   check_permissions ci = Inr dropped \<Longrightarrow>
   context_func_body run self request args kw =
     (Called (Create_view_func_instance request args kw') # Called Check_permissions #
        fst (run self ci), snd (run self ci))"
  by (simp add: context_func_body_def get_owner_instance_Inr(1) split: prod.splits)

lemma call_context_func_body:
  "call_context_func w request args kw =
     context_func_body (if async_def w then self_async_run_view_func else self_run_view_func)
       (closure_self w) request args kw"
  by (simp add: call_context_func_def sync_context_func_def async_context_func_def)

lemmas run_view_func_defs =
  self_run_view_func_def RouteFunction_run_view_func_def
  RetrieveObjectRouteFunction_run_view_func_def PaginatedRouteFunction_run_view_func_def
  self_async_run_view_func_def RouteFunction_async_run_view_func_def
  RetrieveObjectRouteFunction_async_run_view_func_def
  PaginatedRouteFunction_async_run_view_func_def await_call_def

text \<open>A strategy records nothing but its own call and, awaited, its own await.\<close>

lemma strategy_events:
  assumes "ev \<in> set (fst ((if a then self_async_run_view_func else self_run_view_func) self ci))"
  shows "\<exists>s. ev = Called (Strategy s (api_func self)) \<or> ev = Awaited (Strategy s (api_func self))"
  using assms
  by (cases "cls self"; cases a) (auto simp add: run_view_func_defs split: sum.splits)

text \<open>The events of a call, whatever happens: a prefix of create, check, strategy.\<close>

lemma call_context_func_events:
  assumes "ev \<in> set (fst (call_context_func w request args kw))"
  shows "(\<exists>kw'. filter_registered_kwargs (closure_self w) kw = Inr kw' \<and>
            ev = Called (Create_view_func_instance request args kw')) \<or>
         ev = Called Check_permissions \<or>
         (\<exists>s. ev = Called (Strategy s (api_func (closure_self w))) \<or>
              ev = Awaited (Strategy s (api_func (closure_self w))))"
proof (cases "filter_registered_kwargs (closure_self w) kw")
  case (Inl e)
  with assms show ?thesis
    by (simp add: call_context_func_body context_func_body_filter_raises)
next
  case (Inr kw')
  note f = this
  show ?thesis
  proof (cases "snd (get_owner_instance (closure_self w) request args kw')")
    case (Inl e)
    from assms have "ev \<in> set (fst (get_owner_instance (closure_self w) request args kw'))"
      by (simp add: call_context_func_body context_func_body_create_raises[OF f Inl])
    from get_owner_instance_events[OF this] f show ?thesis by simp
  next
    case (Inr ci)
    note c = this
    show ?thesis
    proof (cases "check_permissions ci")
      case (Inl e)
      with assms f c show ?thesis
        by (auto simp add: call_context_func_body context_func_body_denied)
    next
      case (Inr dropped)
      from assms have "ev = Called (Create_view_func_instance request args kw') \<or>
          ev = Called Check_permissions \<or>
          ev \<in> set (fst ((if async_def w then self_async_run_view_func else self_run_view_func)
                          (closure_self w) ci))"
        unfolding call_context_func_body context_func_body_runs[OF f c Inr] by auto
      with f strategy_events show ?thesis by blast
    qed
  qed
qed


lemma filter_registered_kwargs_registered:
  assumes "cls self = PaginatedRouteFunction" and "registered_filter self"
  shows "filter_registered_kwargs self kw =
           (case kw ''filters'' of
              None \<Rightarrow> Inl (KeyError ''filters'')
            | Some v \<Rightarrow> Inr (kw(''filters'' := None)))"
  using assms
  by (simp add: filter_registered_kwargs_def PaginatedRouteFunction_filter_registered_kwargs_def)


section \<open>The examples, evaluated\<close>

lemmas model_defs =
  from_route_def init_def is_async_def Let_def
  convert_api_func_to_context_view_def convert_async_api_func_to_context_view_def
  resolve_api_func_signature_def PaginatedRouteFunction_resolve_api_func_signature_def
  RouteFunction_resolve_api_func_signature_def get_required_eq
  skip_parameters_def has_query_param_def query_params_def Signature_replace_def
  valid_parameters_def inspect_empty_def params_Query_def Query_def

lemmas example_defs =
  exposed_def positional_def def_function_def async_def_function_def int_class_def
  list_items_def list_filtered_def list_by_org_def update_item_def fetch_item_def
  schema_class_def route_of_def instance_of_def view_of_def query_marker_params_def

lemmas call_defs =
  call_context_func_def sync_context_func_def async_context_func_def context_func_body_def
  get_owner_instance_def filter_registered_kwargs_def
  RouteFunction_filter_registered_kwargs_def PaginatedRouteFunction_filter_registered_kwargs_def
  run_view_func_defs controller_with_def granting_def denying_def async_denying_def
  PermissionDenied_def the_request_def

lemma from_route_paginated_list_items:
  "from_route PaginatedRouteFunction list_items (route_of c) =
     Inr (view_of (instance_of PaginatedRouteFunction c list_items True)
            [query_params schema_class],
          instance_of PaginatedRouteFunction c list_items True)"
  by (simp add: model_defs example_defs)

lemma from_route_update_item:
  "from_route RouteFunction update_item (route_of c) =
     Inr (view_of (instance_of RouteFunction c update_item False)
            [positional ''item_id'' inspect_empty int_class,
             \<lparr>name = ''notify'', kind = KEYWORD_ONLY, default_value = PyBool False,
              annotation = inspect_empty\<rparr>],
          instance_of RouteFunction c update_item False)"
  by (simp add: model_defs example_defs)

lemma from_route_fetch_item:
  "from_route RetrieveObjectRouteFunction fetch_item (route_of c) =
     Inr (view_of (instance_of RetrieveObjectRouteFunction c fetch_item False)
            [positional ''item_id'' inspect_empty int_class],
          instance_of RetrieveObjectRouteFunction c fetch_item False)"
  by (simp add: model_defs example_defs)

section \<open>Signature resolution of paginated routes\<close>

text \<open>
  C1. The claim: a handler whose required parameters already include one whose default
  is a query-parameter marker keeps its signature, and \<^verbatim>\<open>registered_filter\<close> stays
  \<^verbatim>\<open>False\<close>. The code compares \<^verbatim>\<open>type(param.default)\<close> with \<^verbatim>\<open>type(params.Query)\<close>, the
  metaclass of the marker class, which is never the type of a marker. For
  \<^verbatim>\<open>def list_filtered(self, context, q: ItemFilter = Query(...))\<close> the required list
  holds the marker parameter \<^verbatim>\<open>q\<close>, \<^verbatim>\<open>has_query_param\<close> is nevertheless false, and the
  exposed signature is \<^verbatim>\<open>q\<close> followed by a synthetic \<^verbatim>\<open>filters\<close>, with the flag set.
\<close>

theorem query_handler_still_gains_filters:
  "query_marker_params (snd (get_required_api_func_signature list_filtered)) =
     [positional ''q'' (Query PyEllipsis) (PyClassObj (PyClass ''ItemFilter'' Builtin_type))] \<and>
   has_query_param (snd (get_required_api_func_signature list_filtered)) = False \<and>
   exposed (from_route PaginatedRouteFunction list_filtered (route_of granting)) =
     Inr ([positional ''q'' (Query PyEllipsis) (PyClassObj (PyClass ''ItemFilter'' Builtin_type)),
           query_params schema_class], True)"
  by (simp add: model_defs example_defs)

text \<open>
  C2. The claim: a handler with no query-marker parameter gains the keyword-only
  \<^verbatim>\<open>filters\<close> parameter and sets \<^verbatim>\<open>registered_filter\<close>. A parameter without default has
  the class \<^verbatim>\<open>inspect.Parameter.empty\<close> as its default, whose type is \<^verbatim>\<open>type\<close>, the same as
  \<^verbatim>\<open>type(params.Query)\<close>. For \<^verbatim>\<open>def list_by_org(self, context, org_id: int)\<close> the required
  list holds no marker, \<^verbatim>\<open>has_query_param\<close> is nevertheless true, nothing is appended and
  the flag stays \<^verbatim>\<open>False\<close>.
\<close>

theorem path_handler_gains_no_filters:
  "query_marker_params (snd (get_required_api_func_signature list_by_org)) = [] \<and>
   has_query_param (snd (get_required_api_func_signature list_by_org)) = True \<and>
   exposed (from_route PaginatedRouteFunction list_by_org (route_of granting)) =
     Inr ([positional ''org_id'' inspect_empty int_class], False)"
  by (simp add: model_defs example_defs)

text \<open>
  C3. The claim: the exposed signature of a paginated route never has more than one
  parameter whose default is a query-parameter marker; the synthetic \<^verbatim>\<open>filters\<close> is to be
  injected only when the handler declares none. The test that guards the injection never
  recognises a marker, so a handler that declares one ends with two. For
  \<^verbatim>\<open>def list_filtered(self, context, q: ItemFilter = Query(...))\<close> the required list has
  exactly one marker parameter, \<^verbatim>\<open>from_route\<close> returns, and the signature attached to the
  wrapper has two: \<^verbatim>\<open>q\<close> and \<^verbatim>\<open>filters\<close>.
\<close>

theorem one_declared_marker_is_exposed_as_two:
  "length (query_marker_params (snd (get_required_api_func_signature list_filtered))) = 1 \<and>
   from_route PaginatedRouteFunction list_filtered (route_of granting) =
     Inr (view_of (instance_of PaginatedRouteFunction granting list_filtered True)
            [positional ''q'' (Query PyEllipsis) (PyClassObj (PyClass ''ItemFilter'' Builtin_type)),
             query_params schema_class],
          instance_of PaginatedRouteFunction granting list_filtered True) \<and>
   length (query_marker_params (parameters (exposed_signature
     (view_of (instance_of PaginatedRouteFunction granting list_filtered True)
        [positional ''q'' (Query PyEllipsis) (PyClassObj (PyClass ''ItemFilter'' Builtin_type)),
         query_params schema_class])))) = 2"
  by (simp add: model_defs example_defs)

section \<open>Keyword arguments on their way to the factory\<close>



section \<open>Permission check and execution strategy\<close>



text \<open>
  C6. For every wrapped callable whose factory returned a controller instance and whose
  permission check did not raise, exactly one execution strategy is called, with the
  original handler, and which one depends on the class and the mode only:
  \<^verbatim>\<open>run_view_func\<close> / \<^verbatim>\<open>async_run_view_func\<close> for the base class,
  \<^verbatim>\<open>run_object_view_func\<close> / \<^verbatim>\<open>async_run_object_view_func\<close> for
  \<^verbatim>\<open>RetrieveObjectRouteFunction\<close>, \<^verbatim>\<open>run_list_view_func\<close> / \<^verbatim>\<open>async_run_list_view_func\<close>
  for \<^verbatim>\<open>PaginatedRouteFunction\<close>. The synchronous wrapper returns (or raises) what the
  strategy returned (or raised); the asynchronous one what awaiting it gave.
\<close>

theorem strategy_follows_the_class:
  assumes "filter_registered_kwargs (closure_self w) kw = Inr kw'"
    and "snd (get_owner_instance (closure_self w) request args kw') = Inr ci"
    and "check_permissions ci = Inr dropped"
    and "handler = api_func (closure_self w)"
    and "called = strategies_called (fst (call_context_func w request args kw))"
    and "outcome = snd (call_context_func w request args kw)"
  shows
    "(cls (closure_self w) = RouteFunction \<and> \<not> async_def w \<longrightarrow>
        called = [(Run_view_func, handler)] \<and> outcome = run_view_func ci handler) \<and>
     (cls (closure_self w) = RouteFunction \<and> async_def w \<longrightarrow>
        called = [(Async_run_view_func, handler)] \<and>
        outcome = (case async_run_view_func ci handler of
                     Inl e \<Rightarrow> Inl e | Inr r \<Rightarrow> await r)) \<and>
     (cls (closure_self w) = RetrieveObjectRouteFunction \<and> \<not> async_def w \<longrightarrow>
        called = [(Run_object_view_func, handler)] \<and>
        outcome = run_object_view_func ci handler) \<and>
     (cls (closure_self w) = RetrieveObjectRouteFunction \<and> async_def w \<longrightarrow>
        called = [(Async_run_object_view_func, handler)] \<and>
        outcome = (case async_run_object_view_func ci handler of
                     Inl e \<Rightarrow> Inl e | Inr r \<Rightarrow> await r)) \<and>
     (cls (closure_self w) = PaginatedRouteFunction \<and> \<not> async_def w \<longrightarrow>
        called = [(Run_list_view_func, handler)] \<and> outcome = run_list_view_func ci handler) \<and>
     (cls (closure_self w) = PaginatedRouteFunction \<and> async_def w \<longrightarrow>
        called = [(Async_run_list_view_func, handler)] \<and>
        outcome = (case async_run_list_view_func ci handler of
                     Inl e \<Rightarrow> Inl e | Inr r \<Rightarrow> await r))"
  unfolding assms(4-6) call_context_func_body context_func_body_runs[OF assms(1-3)]
  by (auto simp add: run_view_func_defs split: sum.splits)

text \<open>
  The six wrappers, called on a controller that grants: each strategy of the example
  controller answers with its own name.
\<close>

theorem strategy_follows_the_class_witness:
  "snd (call_context_func
          (view_of (instance_of RouteFunction granting update_item False)
             [positional ''item_id'' inspect_empty int_class,
              \<lparr>name = ''notify'', kind = KEYWORD_ONLY, default_value = PyBool False,
               annotation = inspect_empty\<rparr>])
          the_request [] [''item_id'' \<mapsto> PyInt 7]) = Inr (Value (PyStr ''run_view_func'')) \<and>
   snd (call_context_func
          (view_of (instance_of RouteFunction granting fetch_item False)
             [positional ''item_id'' inspect_empty int_class])
          the_request [] [''item_id'' \<mapsto> PyInt 7]) = Inr (Value (PyStr ''async_run_view_func'')) \<and>
   snd (call_context_func
          (view_of (instance_of RetrieveObjectRouteFunction granting update_item False)
             [positional ''item_id'' inspect_empty int_class,
              \<lparr>name = ''notify'', kind = KEYWORD_ONLY, default_value = PyBool False,
               annotation = inspect_empty\<rparr>])
          the_request [] [''item_id'' \<mapsto> PyInt 7]) = Inr (Value (PyStr ''run_object_view_func'')) \<and>
   snd (call_context_func
          (view_of (instance_of RetrieveObjectRouteFunction granting fetch_item False)
             [positional ''item_id'' inspect_empty int_class])
          the_request [] [''item_id'' \<mapsto> PyInt 7])
     = Inr (Value (PyStr ''async_run_object_view_func'')) \<and>
   snd (call_context_func
          (view_of (instance_of PaginatedRouteFunction granting list_items True)
             [query_params schema_class])
          the_request [] [''filters'' \<mapsto> PyStr ''open'']) = Inr (Value (PyStr ''run_list_view_func'')) \<and>
   snd (call_context_func
          (view_of (instance_of PaginatedRouteFunction granting fetch_item False)
             [positional ''item_id'' inspect_empty int_class])
          the_request [] [''item_id'' \<mapsto> PyInt 7])
     = Inr (Value (PyStr ''async_run_list_view_func''))"
proof -
  let ?kw = "[''item_id'' \<mapsto> PyInt 7]"
  let ?kwf = "[''filters'' \<mapsto> PyStr ''open'']"
  let ?update = "[positional ''item_id'' inspect_empty int_class,
              \<lparr>name = ''notify'', kind = KEYWORD_ONLY, default_value = PyBool False,
               annotation = inspect_empty\<rparr>]"
  let ?fetch = "[positional ''item_id'' inspect_empty int_class]"
  let ?w1 = "view_of (instance_of RouteFunction granting update_item False) ?update"
  let ?w2 = "view_of (instance_of RouteFunction granting fetch_item False) ?fetch"
  let ?w3 = "view_of (instance_of RetrieveObjectRouteFunction granting update_item False) ?update"
  let ?w4 = "view_of (instance_of RetrieveObjectRouteFunction granting fetch_item False) ?fetch"
  let ?w5 = "view_of (instance_of PaginatedRouteFunction granting list_items True)
               [query_params schema_class]"
  let ?w6 = "view_of (instance_of PaginatedRouteFunction granting fetch_item False) ?fetch"
  have f: "filter_registered_kwargs (closure_self ?w1) ?kw = Inr ?kw"
    "filter_registered_kwargs (closure_self ?w2) ?kw = Inr ?kw"
    "filter_registered_kwargs (closure_self ?w3) ?kw = Inr ?kw"
    "filter_registered_kwargs (closure_self ?w4) ?kw = Inr ?kw"
    "filter_registered_kwargs (closure_self ?w5) ?kwf = Inr (?kwf(''filters'' := None))"
    "filter_registered_kwargs (closure_self ?w6) ?kw = Inr ?kw"
    by (simp_all add: call_defs model_defs example_defs)
  have c: "\<And>self kw. route_definition self = route_of granting \<Longrightarrow>
             ''self'' \<notin> dom kw \<Longrightarrow> ''request'' \<notin> dom kw \<Longrightarrow>
             snd (get_owner_instance self the_request [] kw) = Inr granting"
    by (simp add: get_owner_instance_def route_of_def)
  have k: "''self'' \<notin> dom ?kw" "''request'' \<notin> dom ?kw"
    "''self'' \<notin> dom (?kwf(''filters'' := None))"
    "''request'' \<notin> dom (?kwf(''filters'' := None))"
    by simp_all
  have r: "route_definition (closure_self ?w1) = route_of granting"
    "route_definition (closure_self ?w2) = route_of granting"
    "route_definition (closure_self ?w3) = route_of granting"
    "route_definition (closure_self ?w4) = route_of granting"
    "route_definition (closure_self ?w5) = route_of granting"
    "route_definition (closure_self ?w6) = route_of granting"
    by (simp_all add: view_of_def instance_of_def init_def)
  have g: "check_permissions granting = Inr (Value PyNone)"
    by (simp add: granting_def controller_with_def)
  show ?thesis
    using strategy_follows_the_class[OF f(1) c[OF r(1) k(1,2)] g refl refl refl]
      strategy_follows_the_class[OF f(2) c[OF r(2) k(1,2)] g refl refl refl]
      strategy_follows_the_class[OF f(3) c[OF r(3) k(1,2)] g refl refl refl]
      strategy_follows_the_class[OF f(4) c[OF r(4) k(1,2)] g refl refl refl]
      strategy_follows_the_class[OF f(5) c[OF r(5) k(3,4)] g refl refl refl]
      strategy_follows_the_class[OF f(6) c[OF r(6) k(1,2)] g refl refl refl]
    by (simp add: view_of_def instance_of_def init_def is_async_def example_defs
        granting_def controller_with_def)
qed

text \<open>
  C9. In every call of the wrapped callable, synchronous or asynchronous, what
  \<^verbatim>\<open>check_permissions()\<close> returns is never awaited. Once the factory has returned a
  controller instance the check is called, as a plain call; whatever it returns is
  dropped and the strategy runs, also when what it returns is a coroutine whose body was
  never run.
\<close>

theorem check_permissions_is_not_awaited:
  "Awaited Check_permissions \<notin> set (fst (call_context_func w request args kw)) \<and>
   (\<forall>kw' ci.
      filter_registered_kwargs (closure_self w) kw = Inr kw' \<and>
      snd (get_owner_instance (closure_self w) request args kw') = Inr ci \<longrightarrow>
        Called Check_permissions \<in> set (fst (call_context_func w request args kw)) \<and>
        (\<forall>r. check_permissions ci = Inr r \<longrightarrow>
           call_context_func w request args kw =
             (Called (Create_view_func_instance request args kw') # Called Check_permissions #
                fst ((if async_def w then self_async_run_view_func else self_run_view_func)
                       (closure_self w) ci),
              snd ((if async_def w then self_async_run_view_func else self_run_view_func)
                     (closure_self w) ci))))"
proof (intro conjI allI impI)
  show "Awaited Check_permissions \<notin> set (fst (call_context_func w request args kw))"
    using call_context_func_events[of "Awaited Check_permissions" w request args kw] by auto
next
  fix kw' ci
  assume h: "filter_registered_kwargs (closure_self w) kw = Inr kw' \<and>
      snd (get_owner_instance (closure_self w) request args kw') = Inr ci"
  then have f: "filter_registered_kwargs (closure_self w) kw = Inr kw'"
    and c: "snd (get_owner_instance (closure_self w) request args kw') = Inr ci"
    by simp_all
  show "Called Check_permissions \<in> set (fst (call_context_func w request args kw))"
    by (cases "check_permissions ci")
      (simp_all add: call_context_func_body context_func_body_denied[OF f c]
         context_func_body_runs[OF f c])
  fix r
  assume "check_permissions ci = Inr r"
  then show "call_context_func w request args kw =
             (Called (Create_view_func_instance request args kw') # Called Check_permissions #
                fst ((if async_def w then self_async_run_view_func else self_run_view_func)
                       (closure_self w) ci),
              snd ((if async_def w then self_async_run_view_func else self_run_view_func)
                     (closure_self w) ci))"
    unfolding call_context_func_body by (rule context_func_body_runs[OF f c])
qed

text \<open>
  A controller whose \<^verbatim>\<open>check_permissions\<close> is declared \<^verbatim>\<open>async def\<close> and would raise if
  awaited: the asynchronous wrapper calls it, awaits the strategy only, and answers.
\<close>

theorem check_permissions_is_not_awaited_witness:
  "check_permissions async_denying = Inr (Coroutine (Inl PermissionDenied)) \<and>
   call_context_func
     (view_of (instance_of RouteFunction async_denying fetch_item False)
        [positional ''item_id'' inspect_empty int_class])
     the_request [] [''item_id'' \<mapsto> PyInt 7] =
     ([Called (Create_view_func_instance the_request [] [''item_id'' \<mapsto> PyInt 7]),
       Called Check_permissions,
       Called (Strategy Async_run_view_func fetch_item),
       Awaited (Strategy Async_run_view_func fetch_item)],
      Inr (Value (PyStr ''async_run_view_func'')))"
proof -
  let ?kw = "[''item_id'' \<mapsto> PyInt 7]"
  let ?w = "view_of (instance_of RouteFunction async_denying fetch_item False)
        [positional ''item_id'' inspect_empty int_class]"
  have f: "filter_registered_kwargs (closure_self ?w) ?kw = Inr ?kw"
    by (simp add: call_defs model_defs example_defs)
  have c: "snd (get_owner_instance (closure_self ?w) the_request [] ?kw) = Inr async_denying"
    by (simp add: get_owner_instance_def model_defs example_defs)
  have d: "check_permissions async_denying = Inr (Coroutine (Inl PermissionDenied))"
    by (simp add: async_denying_def controller_with_def)
  from check_permissions_is_not_awaited[of ?w the_request "[]" ?kw] f c d
  have "call_context_func ?w the_request [] ?kw =
          (Called (Create_view_func_instance the_request [] ?kw) # Called Check_permissions #
             fst ((if async_def ?w then self_async_run_view_func else self_run_view_func)
                    (closure_self ?w) async_denying),
           snd ((if async_def ?w then self_async_run_view_func else self_run_view_func)
                  (closure_self ?w) async_denying))"
    by blast
  with d show ?thesis
    by (simp add: run_view_func_defs view_of_def instance_of_def init_def is_async_def
        example_defs async_denying_def controller_with_def)
qed

text \<open>
  C10. When \<^verbatim>\<open>registered_filter\<close> is true and the incoming keyword arguments have no
  key \<^verbatim>\<open>filters\<close>, \<^verbatim>\<open>filter_registered_kwargs\<close> raises \<^verbatim>\<open>KeyError('filters')\<close>: the pop has
  no default. The wrapped callable, synchronous or asynchronous, raises it before it
  calls anything: no controller instance is created and no permission is checked.
\<close>

theorem missing_filters_raises_KeyError:
  assumes "cls (closure_self w) = PaginatedRouteFunction"
    and "registered_filter (closure_self w)"
    and "kw ''filters'' = None"
  shows "filter_registered_kwargs (closure_self w) kw = Inl (KeyError ''filters'') \<and>
         call_context_func w request args kw = ([], Inl (KeyError ''filters''))"
proof -
  have "filter_registered_kwargs (closure_self w) kw = Inl (KeyError ''filters'')"
    using assms by (simp add: filter_registered_kwargs_registered)
  then show ?thesis
    by (simp add: call_context_func_body context_func_body_filter_raises)
qed

theorem missing_filters_raises_KeyError_witness:
  "from_route PaginatedRouteFunction list_items (route_of granting) =
     Inr (view_of (instance_of PaginatedRouteFunction granting list_items True)
            [query_params schema_class],
          instance_of PaginatedRouteFunction granting list_items True) \<and>
   call_context_func
     (view_of (instance_of PaginatedRouteFunction granting list_items True)
        [query_params schema_class])
     the_request [] [''page'' \<mapsto> PyInt 2] = ([], Inl (KeyError ''filters''))"
proof -
  let ?w = "view_of (instance_of PaginatedRouteFunction granting list_items True)
        [query_params schema_class]"
  have a: "cls (closure_self ?w) = PaginatedRouteFunction"
    and b: "registered_filter (closure_self ?w)"
    by (simp_all add: view_of_def instance_of_def init_def)
  have k: "[''page'' \<mapsto> PyInt 2] ''filters'' = None" by simp
  show ?thesis
    using a b k
      missing_filters_raises_KeyError[of ?w "[''page'' \<mapsto> PyInt 2]" the_request "[]"]
      from_route_paginated_list_items[of granting]
    by simp
qed

section \<open>What \<^verbatim>\<open>from_route\<close> returns\<close>

text \<open>
  C7. For every handler and each of the three classes: whenever \<^verbatim>\<open>from_route\<close> returns,
  it returns the wrapped callable and the route function instance, and the wrapped
  callable is asynchronous exactly when the handler is declared asynchronous; it wraps
  that handler and its body refers to the returned instance, which is of the class asked
  for and holds the handler and the Route definition. It returns for every handler whose
  signature \<^verbatim>\<open>inspect\<close> accepts; for a paginated route that gains \<^verbatim>\<open>filters\<close> this needs
  the schema to resolve and the extended parameter list to be accepted too.
\<close>

theorem from_route_keeps_sync_or_async:
  "(\<forall>w rf. from_route c f rd = Inr (w, rf) \<longrightarrow>
      (async_def w \<longleftrightarrow> iscoroutinefunction f) \<and> wrapped w = f \<and> closure_self w = rf \<and>
      cls rf = c \<and> api_func rf = f \<and> route_definition rf = rd) \<and>
   (valid_parameters (parameters (inspect_signature f)) \<and>
    (c = PaginatedRouteFunction \<longrightarrow>
       has_query_param (snd (get_required_api_func_signature f)) \<or>
       (\<exists>schema. resolve_paginated_request_schema rd = Inr schema \<and>
          valid_parameters (snd (get_required_api_func_signature f) @ [query_params schema])))
    \<longrightarrow> (\<exists>w rf. from_route c f rd = Inr (w, rf)))"
proof (intro conjI allI impI)
  fix w rf
  assume r: "from_route c f rd = Inr (w, rf)"
  from from_route_Inr(2)[OF r] show "async_def w \<longleftrightarrow> iscoroutinefunction f"
    by (simp add: is_async_def)
  from from_route_Inr(3,4)[OF r] show "wrapped w = f" and "closure_self w = rf" by simp_all
  from resolve_keeps_instance[OF from_route_Inr(1)[OF r]]
  show "cls rf = c" and "api_func rf = f" and "route_definition rf = rd"
    by (simp_all add: init_def)
next
  assume "valid_parameters (parameters (inspect_signature f)) \<and>
    (c = PaginatedRouteFunction \<longrightarrow>
       has_query_param (snd (get_required_api_func_signature f)) \<or>
       (\<exists>schema. resolve_paginated_request_schema rd = Inr schema \<and>
          valid_parameters (snd (get_required_api_func_signature f) @ [query_params schema])))"
  then show "\<exists>w rf. from_route c f rd = Inr (w, rf)"
    by (intro from_route_returns) auto
qed

text \<open>
  \<^verbatim>\<open>async def fetch_item\<close> gets an asynchronous wrapper, \<^verbatim>\<open>def update_item\<close> a
  synchronous one.
\<close>

theorem from_route_keeps_sync_or_async_witness:
  "from_route RetrieveObjectRouteFunction fetch_item (route_of granting) =
     Inr (view_of (instance_of RetrieveObjectRouteFunction granting fetch_item False)
            [positional ''item_id'' inspect_empty int_class],
          instance_of RetrieveObjectRouteFunction granting fetch_item False) \<and>
   iscoroutinefunction fetch_item \<and>
   async_def (view_of (instance_of RetrieveObjectRouteFunction granting fetch_item False)
                [positional ''item_id'' inspect_empty int_class]) \<and>
   from_route RouteFunction update_item (route_of granting) =
     Inr (view_of (instance_of RouteFunction granting update_item False)
            [positional ''item_id'' inspect_empty int_class,
             \<lparr>name = ''notify'', kind = KEYWORD_ONLY, default_value = PyBool False,
              annotation = inspect_empty\<rparr>],
          instance_of RouteFunction granting update_item False) \<and>
   \<not> iscoroutinefunction update_item \<and>
   \<not> async_def (view_of (instance_of RouteFunction granting update_item False)
                  [positional ''item_id'' inspect_empty int_class,
                   \<lparr>name = ''notify'', kind = KEYWORD_ONLY, default_value = PyBool False,
                    annotation = inspect_empty\<rparr>]) \<and>
   valid_parameters (parameters (inspect_signature update_item))"
proof -
  have a: "iscoroutinefunction fetch_item" and s: "\<not> iscoroutinefunction update_item"
    by (simp_all add: example_defs)
  have v: "valid_parameters (parameters (inspect_signature update_item))"
    by (simp add: model_defs example_defs)
  note fa = from_route_fetch_item[of granting]
  note fs = from_route_update_item[of granting]
  note ta = from_route_keeps_sync_or_async
    [of RetrieveObjectRouteFunction fetch_item "route_of granting",
     THEN conjunct1, rule_format, OF fa, THEN conjunct1]
  note ts = from_route_keeps_sync_or_async
    [of RouteFunction update_item "route_of granting",
     THEN conjunct1, rule_format, OF fs, THEN conjunct1]
  from ta a have wa: "async_def (view_of
      (instance_of RetrieveObjectRouteFunction granting fetch_item False)
      [positional ''item_id'' inspect_empty int_class])"
    by (rule iffD2)
  from ts s have ws: "\<not> async_def (view_of
      (instance_of RouteFunction granting update_item False)
      [positional ''item_id'' inspect_empty int_class,
       \<lparr>name = ''notify'', kind = KEYWORD_ONLY, default_value = PyBool False,
        annotation = inspect_empty\<rparr>])"
    by simp
  from fa a wa fs s ws v show ?thesis
    by (intro conjI)
qed

text \<open>
  C8. For every handler signature and each of the three classes: the signature attached
  to the wrapped callable has no parameter named \<^verbatim>\<open>context\<close>, \<^verbatim>\<open>self\<close> or \<^verbatim>\<open>request\<close>, and
  keeps the handler's return annotation. Its parameters are the handler's other
  parameters, each as the handler declares it (name, kind, default, annotation) and in
  the handler's order; a paginated route may add the synthetic \<^verbatim>\<open>filters\<close> after them,
  nothing else. The signature is attached for every handler signature \<^verbatim>\<open>inspect\<close>
  accepts (for a paginated route that gains \<^verbatim>\<open>filters\<close>: when the schema resolves and the
  extended list is accepted).
\<close>

theorem exposed_signature_skips_context_self_request:
  "(\<forall>w rf. from_route c f rd = Inr (w, rf) \<longrightarrow>
      (\<forall>p \<in> set (parameters (exposed_signature w)).
         name p \<notin> {''context'', ''self'', ''request''}) \<and>
      return_annotation (exposed_signature w) = return_annotation (inspect_signature f) \<and>
      (c \<noteq> PaginatedRouteFunction \<longrightarrow>
         parameters (exposed_signature w) =
           filter (\<lambda>p. name p \<notin> {''context'', ''self'', ''request''})
             (parameters (inspect_signature f))) \<and>
      (c = PaginatedRouteFunction \<longrightarrow>
         (\<exists>extra. parameters (exposed_signature w) =
            filter (\<lambda>p. name p \<notin> {''context'', ''self'', ''request''})
              (parameters (inspect_signature f)) @ extra \<and>
            (extra = [] \<or> (\<exists>schema. extra = [query_params schema]))))) \<and>
   (valid_parameters (parameters (inspect_signature f)) \<and>
    (c = PaginatedRouteFunction \<longrightarrow>
       has_query_param (snd (get_required_api_func_signature f)) \<or>
       (\<exists>schema. resolve_paginated_request_schema rd = Inr schema \<and>
          valid_parameters (snd (get_required_api_func_signature f) @ [query_params schema])))
    \<longrightarrow> (\<exists>w rf. from_route c f rd = Inr (w, rf)))"
proof (intro conjI allI impI)
  fix w rf
  assume r: "from_route c f rd = Inr (w, rf)"
  let ?required = "filter (\<lambda>p. name p \<notin> {''context'', ''self'', ''request''})
                     (parameters (inspect_signature f))"
  have req: "snd (get_required_api_func_signature f) = ?required"
    by (simp add: get_required_eq skip_parameters_def)
  note res = from_route_Inr(1)[OF r]
  have c: "cls (init c rd f) = c" by (simp add: init_def)
  show "return_annotation (exposed_signature w) = return_annotation (inspect_signature f)"
    by (rule resolve_parameters(1)[OF res])
  show plain: "parameters (exposed_signature w) = ?required" if "c \<noteq> PaginatedRouteFunction"
    using resolve_parameters(2)[OF res] that c req by simp
  show pag: "\<exists>extra. parameters (exposed_signature w) = ?required @ extra \<and>
            (extra = [] \<or> (\<exists>schema. extra = [query_params schema]))"
    if "c = PaginatedRouteFunction"
    using resolve_parameters(3)[OF res] that c req by auto
  show "\<forall>p \<in> set (parameters (exposed_signature w)).
          name p \<notin> {''context'', ''self'', ''request''}"
  proof (cases "c = PaginatedRouteFunction")
    case False
    from plain[OF this] show ?thesis by simp
  next
    case True
    from pag[OF this] show ?thesis by (auto simp add: query_params_def)
  qed
next
  assume "valid_parameters (parameters (inspect_signature f)) \<and>
    (c = PaginatedRouteFunction \<longrightarrow>
       has_query_param (snd (get_required_api_func_signature f)) \<or>
       (\<exists>schema. resolve_paginated_request_schema rd = Inr schema \<and>
          valid_parameters (snd (get_required_api_func_signature f) @ [query_params schema])))"
  then show "\<exists>w rf. from_route c f rd = Inr (w, rf)"
    by (intro from_route_returns) auto
qed

text \<open>
  \<^verbatim>\<open>def update_item(self, request, item_id: int, *, notify=False)\<close> is exposed as
  \<^verbatim>\<open>(item_id: int, *, notify=False)\<close>.
\<close>

theorem exposed_signature_skips_context_self_request_witness:
  "valid_parameters (parameters (inspect_signature update_item)) \<and>
   from_route RouteFunction update_item (route_of granting) =
     Inr (view_of (instance_of RouteFunction granting update_item False)
            [positional ''item_id'' inspect_empty int_class,
             \<lparr>name = ''notify'', kind = KEYWORD_ONLY, default_value = PyBool False,
              annotation = inspect_empty\<rparr>],
          instance_of RouteFunction granting update_item False) \<and>
   parameters (exposed_signature
     (view_of (instance_of RouteFunction granting update_item False)
        [positional ''item_id'' inspect_empty int_class,
         \<lparr>name = ''notify'', kind = KEYWORD_ONLY, default_value = PyBool False,
          annotation = inspect_empty\<rparr>])) =
     [positional ''item_id'' inspect_empty int_class,
      \<lparr>name = ''notify'', kind = KEYWORD_ONLY, default_value = PyBool False,
       annotation = inspect_empty\<rparr>] \<and>
   filter (\<lambda>p. name p \<notin> {''context'', ''self'', ''request''})
     (parameters (inspect_signature update_item)) =
     [positional ''item_id'' inspect_empty int_class,
      \<lparr>name = ''notify'', kind = KEYWORD_ONLY, default_value = PyBool False,
       annotation = inspect_empty\<rparr>]"
proof -
  have v: "valid_parameters (parameters (inspect_signature update_item))"
    by (simp add: model_defs example_defs)
  have flt: "filter (\<lambda>p. name p \<notin> {''context'', ''self'', ''request''})
     (parameters (inspect_signature update_item)) =
     [positional ''item_id'' inspect_empty int_class,
      \<lparr>name = ''notify'', kind = KEYWORD_ONLY, default_value = PyBool False,
       annotation = inspect_empty\<rparr>]"
    by (simp add: example_defs)
  show ?thesis
    using v flt from_route_update_item[of granting]
      exposed_signature_skips_context_self_request
        [of RouteFunction update_item "route_of granting"]
    by (simp add: view_of_def)
qed

end
